theory Spec2Isabelle
  imports Complex_Main
begin

section \<open>Values, errors and strings\<close>

text \<open>
  The program is Python. A value that \<^verbatim>\<open>json.loads\<close> can return, or that the state
  dictionary can hold, is a \<open>pyval\<close>. A dictionary with string keys is a map from
  \<open>string\<close> to values. A float is represented by the real number its literal denotes;
  the code performs no arithmetic on floats, it only stores and returns them.
  Strings are lists of characters with code points below 256.
\<close>

datatype pyval =
    PNone
  | PBool bool
  | PInt int
  | PFloat real
  | PStr string
  | PList "pyval list"
  | PDict "string \<Rightarrow> pyval option"

type_synonym pydict = "string \<Rightarrow> pyval option"

text \<open>
  The exceptions that occur in the modelled code. \<open>JSONDecodeError\<close> is the only one
  that \<^verbatim>\<open>_parse_json\<close> catches; \<open>OtherError\<close> stands for anything else the JSON
  decoder may raise (for instance \<^verbatim>\<open>RecursionError\<close> on deeply nested input).
\<close>

datatype error = JSONDecodeError | AttributeError | OverflowError | OtherError

subsection \<open>\<^verbatim>\<open>str.strip\<close>, \<^verbatim>\<open>str.find\<close>, \<^verbatim>\<open>str.rfind\<close> and slicing\<close>

text \<open>
  \<^verbatim>\<open>str.isspace\<close> on the code points below 256: tab, line feed, vertical tab, form
  feed, carriage return, the four separators 28 to 31, space, next-line (133) and
  no-break space (160).
\<close>

definition py_isspace :: "char \<Rightarrow> bool" where
  "py_isspace c = (let n = (of_char c :: nat) in
     (9 \<le> n \<and> n \<le> 13) \<or> (28 \<le> n \<and> n \<le> 32) \<or> n = 133 \<or> n = 160)"

definition lstrip :: "string \<Rightarrow> string" where
  "lstrip s = dropWhile py_isspace s"

definition rstrip :: "string \<Rightarrow> string" where
  "rstrip s = rev (dropWhile py_isspace (rev s))"

definition strip :: "string \<Rightarrow> string" where
  "strip s = rstrip (lstrip s)"

text \<open>
  \<^verbatim>\<open>text.find(c)\<close> for a one-character needle: the lowest index holding \<open>c\<close>, or \<open>-1\<close>.
\<close>

fun str_find :: "string \<Rightarrow> char \<Rightarrow> int" where
  "str_find [] c = - 1"
| "str_find (x # xs) c =
     (if x = c then 0
      else (let r = str_find xs c in if r = - 1 then - 1 else r + 1))"

text \<open>
  \<^verbatim>\<open>text.rfind(c)\<close>: the highest index holding \<open>c\<close>, or \<open>-1\<close>.
\<close>

definition str_rfind :: "string \<Rightarrow> char \<Rightarrow> int" where
  "str_rfind s c =
     (let r = str_find (rev s) c in
      if r = - 1 then - 1 else int (length s) - 1 - r)"

text \<open>
  \<^verbatim>\<open>text[a:b]\<close>: a negative bound counts from the end, and both bounds are clamped to
  the string.
\<close>

definition slice_bound :: "int \<Rightarrow> int \<Rightarrow> nat" where
  "slice_bound n i = nat (if i < 0 then max 0 (n + i) else min n i)"

definition py_slice :: "string \<Rightarrow> int \<Rightarrow> int \<Rightarrow> string" where
  "py_slice s a b =
     (let n = int (length s) in drop (slice_bound n a) (take (slice_bound n b) s))"

section \<open>The structured extractor\<close>

text \<open>
  \<^verbatim>\<open>_parse_json\<close> of \<^verbatim>\<open>nodes.py\<close>. The JSON decoder \<^verbatim>\<open>json.loads\<close> belongs to
  the Python standard library, not to this program: it is the parameter \<open>loads\<close>, which
  returns the decoded value or the exception it raises. The two \<^verbatim>\<open>except\<close> clauses
  catch \<open>JSONDecodeError\<close> only, so every other exception of the decoder leaves the
  function.
\<close>

type_synonym decoder = "string \<Rightarrow> error + pyval"

definition parse_json :: "decoder \<Rightarrow> string \<Rightarrow> pyval \<Rightarrow> error + pyval" where
  "parse_json loads text0 fallback =
     (let text = strip text0 in
      case loads text of
        Inr v \<Rightarrow> Inr v
      | Inl JSONDecodeError \<Rightarrow>
          (let start = str_find text CHR ''{'';
               end = str_rfind text CHR ''}'' + 1
           in if start \<noteq> - 1 \<and> end > start then
                (case loads (py_slice text start end) of
                   Inr v \<Rightarrow> Inr v
                 | Inl JSONDecodeError \<Rightarrow> Inr fallback
                 | Inl e \<Rightarrow> Inl e)
              else Inr fallback)
      | Inl e \<Rightarrow> Inl e)"

section \<open>Nodes that read a completion\<close>

text \<open>
  \<^verbatim>\<open>obj.get(key, default)\<close>: a dictionary answers with the stored value or the default;
  every other JSON value (list, string, number, boolean, \<^verbatim>\<open>None\<close>) has no attribute
  \<^verbatim>\<open>get\<close>, and the access raises \<open>AttributeError\<close>.
\<close>

definition dict_get :: "pydict \<Rightarrow> string \<Rightarrow> pyval \<Rightarrow> pyval" where
  "dict_get m k d = (case m k of Some v \<Rightarrow> v | None \<Rightarrow> d)"

definition py_get :: "pyval \<Rightarrow> string \<Rightarrow> pyval \<Rightarrow> error + pyval" where
  "py_get obj k d =
     (case obj of PDict m \<Rightarrow> Inr (dict_get m k d) | _ \<Rightarrow> Inl AttributeError)"

definition is_dict :: "pyval \<Rightarrow> bool" where
  "is_dict v = (case v of PDict m \<Rightarrow> True | _ \<Rightarrow> False)"

text \<open>
  The two nodes below first build a prompt from the state and send it to the completion
  service; the service is an external collaborator whose answer is not determined by
  the program. The model starts where the answer \<^verbatim>\<open>response.content\<close> is at hand: it
  is the argument \<open>content\<close>, and the result is the partial update the node returns, or
  the exception that leaves it.
\<close>

definition parse_fallback :: pyval where
  "parse_fallback = PDict [''symptoms'' \<mapsto> PList [PStr ''unable to parse''],
                           ''duration'' \<mapsto> PStr ''not specified'',
                           ''severity_cues'' \<mapsto> PList []]"

definition parse_patient_message :: "decoder \<Rightarrow> string \<Rightarrow> error + pydict" where
  "parse_patient_message loads content =
     (case parse_json loads content parse_fallback of
        Inl e \<Rightarrow> Inl e
      | Inr parsed \<Rightarrow>
          (case py_get parsed ''symptoms'' (PList []) of
             Inl e \<Rightarrow> Inl e
           | Inr symptoms \<Rightarrow>
               (case py_get parsed ''duration'' (PStr ''not specified'') of
                  Inl e \<Rightarrow> Inl e
                | Inr duration \<Rightarrow>
                    Inr [''symptoms'' \<mapsto> symptoms, ''duration'' \<mapsto> duration])))"

definition assess_fallback :: pyval where
  "assess_fallback = PDict [''severity_score'' \<mapsto> PInt 6,
                            ''urgency_level'' \<mapsto> PStr ''URGENT'',
                            ''red_flags'' \<mapsto> PList [],
                            ''confidence'' \<mapsto> PFloat 0.3]"

definition assess_urgency :: "decoder \<Rightarrow> string \<Rightarrow> error + pydict" where
  "assess_urgency loads content =
     (case parse_json loads content assess_fallback of
        Inl e \<Rightarrow> Inl e
      | Inr assessed \<Rightarrow>
          (case py_get assessed ''severity_score'' (PInt 5) of
             Inl e \<Rightarrow> Inl e
           | Inr severity_score \<Rightarrow>
          (case py_get assessed ''urgency_level'' (PStr ''URGENT'') of
             Inl e \<Rightarrow> Inl e
           | Inr urgency_level \<Rightarrow>
          (case py_get assessed ''red_flags'' (PList []) of
             Inl e \<Rightarrow> Inl e
           | Inr red_flags \<Rightarrow>
          (case py_get assessed ''confidence'' (PFloat 0.5) of
             Inl e \<Rightarrow> Inl e
           | Inr confidence \<Rightarrow>
               Inr [''severity_score'' \<mapsto> severity_score,
                    ''urgency_level'' \<mapsto> urgency_level,
                    ''red_flags'' \<mapsto> red_flags,
                    ''confidence'' \<mapsto> confidence])))))"

section \<open>The router\<close>

text \<open>\<^verbatim>\<open>route_by_urgency\<close> of \<^verbatim>\<open>graph.py\<close>.\<close>

definition route_by_urgency :: "pydict \<Rightarrow> string" where
  "route_by_urgency state =
     (let level = dict_get state ''urgency_level'' (PStr ''ROUTINE'') in
      if level = PStr ''EMERGENCY'' then ''emergency''
      else if level = PStr ''URGENT'' then ''urgent''
      else ''routine'')"

section \<open>The booking handler\<close>

subsection \<open>Formatting\<close>

text \<open>Decimal digits of a natural number and of an integer, as \<^verbatim>\<open>str\<close> prints them.\<close>

fun str_nat :: "nat \<Rightarrow> string" where
  "str_nat n =
     (if n < 10 then [char_of (48 + n)]
      else str_nat (n div 10) @ [char_of (48 + n mod 10)])"

declare str_nat.simps [simp del]

definition str_int :: "int \<Rightarrow> string" where
  "str_int i = (if i < 0 then CHR ''-'' # str_nat (nat (- i)) else str_nat (nat i))"

text \<open>
  A replacement field \<^verbatim>\<open>{v}\<close> of an f-string. Integers, strings, booleans and
  \<^verbatim>\<open>None\<close> are printed here; the text Python prints for a float, a list or a
  dictionary is the parameter \<open>other\<close>.
\<close>

definition py_format :: "(pyval \<Rightarrow> string) \<Rightarrow> pyval \<Rightarrow> string" where
  "py_format other v =
     (case v of
        PInt i \<Rightarrow> str_int i
      | PStr s \<Rightarrow> s
      | PBool b \<Rightarrow> (if b then ''True'' else ''False'')
      | PNone \<Rightarrow> ''None''
      | _ \<Rightarrow> other v)"

subsection \<open>Naive date-times\<close>

text \<open>
  A \<^verbatim>\<open>datetime\<close> without time zone: the date as its proleptic Gregorian ordinal
  (\<^verbatim>\<open>date.toordinal()\<close>, day 1 is 0001-01-01) and the time of day. The last date
  Python represents is 9999-12-31, ordinal 3652059; adding a \<^verbatim>\<open>timedelta\<close> that
  leaves the range raises \<open>OverflowError\<close>.
\<close>

record datetime =
  ordinal :: int
  hour :: nat
  minute :: nat
  second :: nat
  microsecond :: nat

definition max_ordinal :: int where
  "max_ordinal = 3652059"

text \<open>The values the fields of a \<^verbatim>\<open>datetime\<close> range over.\<close>

definition valid_datetime :: "datetime \<Rightarrow> bool" where
  "valid_datetime d =
     (1 \<le> ordinal d \<and> ordinal d \<le> max_ordinal \<and> hour d < 24 \<and> minute d < 60 \<and>
      second d < 60 \<and> microsecond d < 1000000)"

text \<open>The comparison \<^verbatim>\<open>a <= b\<close> of two naive date-times: field by field from the date down.\<close>

definition dt_le :: "datetime \<Rightarrow> datetime \<Rightarrow> bool" where
  "dt_le a b =
     (ordinal a < ordinal b \<or> (ordinal a = ordinal b \<and>
     (hour a < hour b \<or> (hour a = hour b \<and>
     (minute a < minute b \<or> (minute a = minute b \<and>
     (second a < second b \<or> (second a = second b \<and>
      microsecond a \<le> microsecond b))))))))"

definition add_days :: "datetime \<Rightarrow> int \<Rightarrow> error + datetime" where
  "add_days d n =
     (let o' = ordinal d + n in
      if o' < 1 \<or> max_ordinal < o' then Inl OverflowError
      else Inr (d\<lparr>ordinal := o'\<rparr>))"

text \<open>
  The directives \<^verbatim>\<open>%I\<close> (hour on the 12-hour clock, two digits), \<^verbatim>\<open>%M\<close> (minute,
  two digits) and \<^verbatim>\<open>%p\<close> (\<^verbatim>\<open>AM\<close> or \<^verbatim>\<open>PM\<close> in the C locale, which a Python
  process has unless it sets another) of \<^verbatim>\<open>strftime\<close>.
\<close>

definition two_digits :: "nat \<Rightarrow> string" where
  "two_digits n = (if n < 10 then CHR ''0'' # str_nat n else str_nat n)"

definition strftime_I :: "datetime \<Rightarrow> string" where
  "strftime_I d = two_digits (if hour d mod 12 = 0 then 12 else hour d mod 12)"

definition strftime_M :: "datetime \<Rightarrow> string" where
  "strftime_M d = two_digits (minute d)"

definition strftime_p :: "datetime \<Rightarrow> string" where
  "strftime_p d = (if hour d < 12 then ''AM'' else ''PM'')"

subsection \<open>\<^verbatim>\<open>urgent_handler\<close>\<close>

text \<open>
  The slot: the current time with the hour replaced by 15 and the smaller fields by 0,
  moved one day on when it is not after the current time.
\<close>

definition booking_slot :: "datetime \<Rightarrow> error + datetime" where
  "booking_slot now =
     (let slot = now\<lparr>hour := 15, minute := 0, second := 0, microsecond := 0\<rparr> in
      if dt_le slot now then add_days slot 1 else Inr slot)"

definition slot_str :: "datetime \<Rightarrow> datetime \<Rightarrow> string" where
  "slot_str slot now =
     strftime_I slot @ '':'' @ strftime_M slot @ '' '' @ strftime_p slot @
     (if ordinal slot = ordinal now then '' today'' else '' tomorrow'')"

text \<open>
  \<^verbatim>\<open>urgent_handler\<close>, with the clock reading \<^verbatim>\<open>datetime.now()\<close> as the argument
  \<open>now\<close>. The three \<^verbatim>\<open>print\<close> calls write to the console and do not touch the
  result; they are left out.
\<close>

definition urgent_handler ::
  "(pyval \<Rightarrow> string) \<Rightarrow> datetime \<Rightarrow> pydict \<Rightarrow> error + pydict" where
  "urgent_handler other now state =
     (case booking_slot now of
        Inl e \<Rightarrow> Inl e
      | Inr slot \<Rightarrow>
          Inr [''action_taken'' \<mapsto> PStr ''BOOK'',
               ''escalation_reason'' \<mapsto> PStr
                 (''Same-day appointment booked for '' @ slot_str slot now @ ''. '' @
                  ''Severity: '' @
                  py_format other (dict_get state ''severity_score'' (PStr ''N/A'')) @
                  ''/10.'')])"

section \<open>Merging a partial update into the state\<close>

text \<open>
  Modelled from the spec: the merge of a node's partial update into the state is done by
  the graph library that \<^verbatim>\<open>build_graph\<close> hands the nodes to, and is not part of the
  sources. The specification says: the update's keys overwrite identically-named state
  keys; all other keys are untouched.
\<close>

definition merge_update :: "pydict \<Rightarrow> pydict \<Rightarrow> pydict" where
  "merge_update state upd = (\<lambda>k. case upd k of Some v \<Rightarrow> Some v | None \<Rightarrow> state k)"

section \<open>Notions used in the statements\<close>

text \<open>
  Extraction fails entirely on a completion when the decoder rejects the stripped text
  with \<open>JSONDecodeError\<close> and, where an opening brace is found and the last closing brace
  lies behind it, rejects the text from the one to the other in the same way.
\<close>

definition extraction_fails :: "decoder \<Rightarrow> string \<Rightarrow> bool" where
  "extraction_fails loads content =
     (loads (strip content) = Inl JSONDecodeError \<and>
      (str_find (strip content) CHR ''{'' \<noteq> - 1 \<and>
       str_find (strip content) CHR ''{'' < str_rfind (strip content) CHR ''}'' + 1 \<longrightarrow>
       loads (py_slice (strip content) (str_find (strip content) CHR ''{'')
                (str_rfind (strip content) CHR ''}'' + 1)) = Inl JSONDecodeError))"

text \<open>
  The fixed target hour has already elapsed for the current day: the test
  \<^verbatim>\<open>slot <= now\<close> of \<^verbatim>\<open>urgent_handler\<close>, taken right after \<^verbatim>\<open>slot\<close> is set to
  15:00:00 of the current day.
\<close>

definition target_elapsed :: "datetime \<Rightarrow> bool" where
  "target_elapsed now =
     dt_le (now\<lparr>hour := 15, minute := 0, second := 0, microsecond := 0\<rparr>) now"

text \<open>
  A decoder for concrete instances. It answers as \<^verbatim>\<open>json.loads\<close> does on the four
  valid texts listed and rejects every other text; the instances use it on these four
  texts and on texts that are not JSON.
\<close>

definition loads_sample :: decoder where
  \<open>loads_sample s =
     (if s = ''[]'' then Inr (PList [])
      else if s = ''42'' then Inr (PInt 42)
      else if s = ''{}'' then Inr (PDict Map.empty)
      else if s = ''{"severity_score": 9}'' then Inr (PDict [''severity_score'' \<mapsto> PInt 9])
      else Inl JSONDecodeError)\<close>

text \<open>
  A deeply nested text: a hundred thousand opening brackets. On it \<^verbatim>\<open>json.loads\<close>
  runs out of recursion depth and raises \<^verbatim>\<open>RecursionError\<close>, which is not a
  \<open>JSONDecodeError\<close>. The decoder \<open>loads_nested\<close> answers so on this text and as
  \<open>loads_sample\<close> on every other.
\<close>

definition deep_text :: string where
  "deep_text = replicate 100000 CHR ''[''"

definition loads_nested :: decoder where
  "loads_nested s = (if s = deep_text then Inl OtherError else loads_sample s)"

section \<open>Properties of the string operations\<close>

text \<open>
  \<open>str_find\<close> yields \<open>-1\<close> exactly when the character is absent and the least index
  holding it otherwise; \<open>str_rfind\<close> likewise with the greatest index. \<open>strip\<close> removes
  a whitespace prefix and a whitespace suffix and leaves no whitespace at either end.
  Where the guard of \<^verbatim>\<open>_parse_json\<close> holds, both braces occur, the closing one behind
  the opening one, and the slice is the text from the one to the other, both included.
\<close>

lemma str_find_lower: "- 1 \<le> str_find s c"
  by (induction s) (auto simp add: Let_def)

lemma str_find_absent: "str_find s c = - 1 \<longleftrightarrow> c \<notin> set s"
proof (induction s)
  case Nil
  then show ?case by simp
next
  case (Cons x xs)
  have "str_find xs c + 1 \<noteq> - 1"
    using str_find_lower [of xs c] by arith
  with Cons show ?case by (simp add: Let_def)
qed

lemma str_find_bounds:
  "c \<in> set s \<Longrightarrow> 0 \<le> str_find s c \<and> str_find s c < int (length s)"
  by (induction s) (auto simp add: Let_def str_find_absent)

lemma str_find_first:
  "c \<in> set s \<Longrightarrow>
     s ! nat (str_find s c) = c \<and> (\<forall>j < nat (str_find s c). s ! j \<noteq> c)"
proof (induction s)
  case Nil
  then show ?case by simp
next
  case (Cons x xs)
  show ?case
  proof (cases "x = c")
    case True
    then show ?thesis by simp
  next
    case False
    with Cons.prems have in_xs: "c \<in> set xs" by simp
    then have nn: "str_find xs c \<noteq> - 1" "0 \<le> str_find xs c"
      using str_find_absent [of xs c] str_find_bounds [of c xs] by auto
    have eq: "nat (str_find xs c + 1) = Suc (nat (str_find xs c))"
      using nn by simp
    from Cons.IH [OF in_xs] False nn show ?thesis
      by (auto simp add: Let_def eq nth_Cons split: nat.splits)
  qed
qed

lemma str_rfind_absent: "str_rfind s c = - 1 \<longleftrightarrow> c \<notin> set s"
  using str_find_absent [of "rev s" c] str_find_bounds [of c "rev s"]
  by (auto simp add: str_rfind_def Let_def)

lemma str_rfind_bounds:
  "c \<in> set s \<Longrightarrow> 0 \<le> str_rfind s c \<and> str_rfind s c < int (length s)"
  using str_find_absent [of "rev s" c] str_find_bounds [of c "rev s"]
  by (auto simp add: str_rfind_def Let_def)

lemma str_rfind_last:
  assumes "c \<in> set s"
  shows "s ! nat (str_rfind s c) = c \<and>
         (\<forall>j. nat (str_rfind s c) < j \<and> j < length s \<longrightarrow> s ! j \<noteq> c)"
proof -
  let ?r = "nat (str_find (rev s) c)"
  from assms have c: "c \<in> set (rev s)" by simp
  have b: "0 \<le> str_find (rev s) c" "?r < length s"
    using str_find_bounds [OF c] by auto
  have ne: "str_find (rev s) c \<noteq> - 1"
    using c str_find_absent [of "rev s" c] by simp
  have idx: "nat (str_rfind s c) = length s - 1 - ?r"
    using b ne by (simp add: str_rfind_def Let_def nat_diff_distrib')
  from str_find_first [OF c] have f: "rev s ! ?r = c" "\<forall>j < ?r. rev s ! j \<noteq> c"
    by auto
  have "s ! (length s - 1 - ?r) = c"
    using f(1) b(2) by (simp add: rev_nth)
  moreover have "s ! j \<noteq> c" if "length s - 1 - ?r < j" "j < length s" for j
  proof -
    have "length s - 1 - j < ?r" using that b(2) by arith
    with f(2) have "rev s ! (length s - 1 - j) \<noteq> c" by blast
    moreover have "rev s ! (length s - 1 - j) = s ! j"
      using that(2) by (simp add: rev_nth)
    ultimately show ?thesis by simp
  qed
  ultimately show ?thesis unfolding idx by blast
qed

lemma py_slice_inner:
  "0 \<le> a \<Longrightarrow> a \<le> b \<Longrightarrow> b \<le> int (length s) \<Longrightarrow>
     py_slice s a b = take (nat (b - a)) (drop (nat a) s)"
  by (simp add: py_slice_def slice_bound_def Let_def drop_take nat_diff_distrib')

lemma lstrip_head: "lstrip s = x # xs \<Longrightarrow> \<not> py_isspace x"
  unfolding lstrip_def by (metis dropWhile_eq_Cons_conv)

lemma strip_decompose:
  "\<exists>pre post. s = pre @ strip s @ post \<and> (\<forall>c \<in> set pre. py_isspace c) \<and> (\<forall>c \<in> set post. py_isspace c)"
proof -
  let ?l = "dropWhile py_isspace s"
  have 1: "s = takeWhile py_isspace s @ ?l" by simp
  have 2: "rev ?l = takeWhile py_isspace (rev ?l) @ dropWhile py_isspace (rev ?l)" by simp
  then have "?l = rev (dropWhile py_isspace (rev ?l)) @ rev (takeWhile py_isspace (rev ?l))"
    by (metis rev_append rev_rev_ident)
  then have 3: "?l = strip s @ rev (takeWhile py_isspace (rev ?l))"
    by (simp add: strip_def lstrip_def rstrip_def)
  have "s = takeWhile py_isspace s @ strip s @ rev (takeWhile py_isspace (rev ?l))"
    using 1 3 by metis
  moreover have "\<forall>c \<in> set (takeWhile py_isspace s). py_isspace c"
    by (auto dest: set_takeWhileD)
  moreover have "\<forall>c \<in> set (rev (takeWhile py_isspace (rev ?l))). py_isspace c"
    by (auto dest: set_takeWhileD)
  ultimately show ?thesis by blast
qed

lemma strip_ends:
  "strip s \<noteq> [] \<Longrightarrow> \<not> py_isspace (hd (strip s)) \<and> \<not> py_isspace (last (strip s))"
proof -
  assume ne: "strip s \<noteq> []"
  let ?l = "dropWhile py_isspace s"
  let ?d = "dropWhile py_isspace (rev ?l)"
  have s: "strip s = rev ?d" by (simp add: strip_def lstrip_def rstrip_def)
  with ne have dne: "?d \<noteq> []" by simp
  then have "\<not> py_isspace (hd ?d)" by (rule hd_dropWhile)
  then have l: "\<not> py_isspace (last (strip s))"
    using dne by (simp add: s last_rev)
  have lne: "?l \<noteq> []"
  proof
    assume a: "?l = []"
    have "?d = []" by (simp only: a rev.simps dropWhile.simps)
    with dne show False by blast
  qed
  then have hl: "\<not> py_isspace (hd ?l)" by (rule hd_dropWhile)
  have "rev ?l = takeWhile py_isspace (rev ?l) @ ?d" by simp
  then have "?l = rev ?d @ rev (takeWhile py_isspace (rev ?l))"
    by (metis rev_append rev_rev_ident)
  then have "hd ?l = hd (rev ?d)" using dne by (metis hd_append2 rev_is_Nil_conv)
  with hl have "\<not> py_isspace (hd (strip s))" by (simp add: s)
  with l show ?thesis by simp
qed


lemma brace_guard:
  "str_find t CHR ''{'' \<noteq> - 1 \<and> str_find t CHR ''{'' < str_rfind t CHR ''}'' + 1 \<longleftrightarrow>
   CHR ''{'' \<in> set t \<and> CHR ''}'' \<in> set t \<and> str_find t CHR ''{'' < str_rfind t CHR ''}''"
proof -
  have "str_find t CHR ''{'' \<noteq> str_rfind t CHR ''}''"
    if o: "CHR ''{'' \<in> set t" and c: "CHR ''}'' \<in> set t"
  proof
    assume e: "str_find t CHR ''{'' = str_rfind t CHR ''}''"
    have "t ! nat (str_find t CHR ''{'') = CHR ''{''"
      using str_find_first [OF o] by simp
    moreover have "t ! nat (str_rfind t CHR ''}'') = CHR ''}''"
      using str_rfind_last [OF c] by simp
    ultimately show False unfolding e by simp
  qed
  moreover have "CHR ''}'' \<in> set t"
    if "CHR ''{'' \<in> set t" "str_find t CHR ''{'' < str_rfind t CHR ''}'' + 1"
  proof -
    have "0 \<le> str_rfind t CHR ''}''"
      using that str_find_bounds [of "CHR ''{''" t] by arith
    then show ?thesis
      using str_rfind_absent [of t "CHR ''}''"] by auto
  qed
  ultimately show ?thesis
    using str_find_absent [of t "CHR ''{''"] by fastforce
qed

lemma brace_span:
  assumes "str_find t CHR ''{'' \<noteq> - 1"
    and "str_find t CHR ''{'' < str_rfind t CHR ''}''"
  shows "py_slice t (str_find t CHR ''{'') (str_rfind t CHR ''}'' + 1) =
           take (nat (str_rfind t CHR ''}'' - str_find t CHR ''{'') + 1)
             (drop (nat (str_find t CHR ''{'')) t)"
    and "hd (py_slice t (str_find t CHR ''{'') (str_rfind t CHR ''}'' + 1)) = CHR ''{''"
    and "last (py_slice t (str_find t CHR ''{'') (str_rfind t CHR ''}'' + 1)) = CHR ''}''"
proof -
  let ?f = "str_find t CHR ''{''" and ?r = "str_rfind t CHR ''}''"
  from assms brace_guard [of t] have o: "CHR ''{'' \<in> set t" and c: "CHR ''}'' \<in> set t"
    by auto
  have fb: "0 \<le> ?f" using str_find_bounds [OF o] by simp
  have rb: "?r < int (length t)" using str_rfind_bounds [OF c] by simp
  have "py_slice t ?f (?r + 1) = take (nat (?r + 1 - ?f)) (drop (nat ?f) t)"
    using fb rb assms(2) by (intro py_slice_inner) simp_all
  moreover have "nat (?r + 1 - ?f) = nat (?r - ?f) + 1"
    using assms(2) by simp
  ultimately show eq: "py_slice t ?f (?r + 1) = take (nat (?r - ?f) + 1) (drop (nat ?f) t)"
    by simp
  have len: "nat ?f + nat (?r - ?f) < length t"
    using fb rb assms(2) by arith
  have "hd (take (nat (?r - ?f) + 1) (drop (nat ?f) t)) = t ! nat ?f"
    using len by (simp add: hd_drop_conv_nth)
  then show "hd (py_slice t ?f (?r + 1)) = CHR ''{''"
    using str_find_first [OF o] eq by simp
  have "last (take (nat (?r - ?f) + 1) (drop (nat ?f) t)) = drop (nat ?f) t ! nat (?r - ?f)"
    using len by (simp add: take_Suc_conv_app_nth)
  also have "\<dots> = t ! (nat ?f + nat (?r - ?f))"
    using len by simp
  also have "nat ?f + nat (?r - ?f) = nat ?r"
    using fb assms(2) by arith
  finally show "last (py_slice t ?f (?r + 1)) = CHR ''}''"
    using str_rfind_last [OF c] eq by simp
qed

lemma strip_replicate:
  "\<not> py_isspace c \<Longrightarrow> strip (replicate n c) = replicate n c"
  by (cases n) (simp_all add: strip_def lstrip_def rstrip_def flip: replicate_Suc)

lemma strip_deep_text: "strip deep_text = deep_text"
  unfolding deep_text_def by (rule strip_replicate) (simp add: py_isspace_def)

section \<open>Properties of the structured extractor\<close>

lemmas strip_defs = strip_def lstrip_def rstrip_def py_isspace_def

lemma parse_json_whole:
  "loads (strip content) = Inr v \<Longrightarrow> parse_json loads content fallback = Inr v"
  by (simp add: parse_json_def)

lemma parse_json_failure:
  "extraction_fails loads content \<Longrightarrow> parse_json loads content fallback = Inr fallback"
  by (auto simp add: parse_json_def extraction_fails_def Let_def)


lemma py_get_not_dict: "\<not> is_dict v \<Longrightarrow> py_get v k d = Inl AttributeError"
  by (cases v) (simp_all add: py_get_def is_dict_def)

lemma py_get_dict: "py_get (PDict m) k d = Inr (dict_get m k d)"
  by (simp add: py_get_def)

text \<open>
  Claim C1, as amended. When every parsing attempt fails with \<open>JSONDecodeError\<close> (the
  stripped text as a whole, and the text from the first opening brace to the last
  closing brace where the guard of the code admits it), \<^verbatim>\<open>_parse_json\<close> returns
  the fallback it was given, itself and unchanged, and no exception leaves it.
\<close>

theorem parse_json_returns_fallback:
  "extraction_fails loads content \<Longrightarrow>
     parse_json loads content fallback = Inr fallback \<and>
     (\<forall>e. parse_json loads content fallback \<noteq> Inl e)"
  using parse_json_failure [of loads content fallback] by simp

theorem parse_json_returns_fallback_witness:
  "extraction_fails loads_sample ''  reply {not json} end '' \<and>
   parse_json loads_sample ''  reply {not json} end '' (PDict [''k'' \<mapsto> PInt 1])
     = Inr (PDict [''k'' \<mapsto> PInt 1]) \<and>
   (\<forall>e. parse_json loads_sample ''  reply {not json} end '' (PDict [''k'' \<mapsto> PInt 1]) \<noteq> Inl e)"
proof -
  have h: "extraction_fails loads_sample ''  reply {not json} end ''"
    by (simp add: extraction_fails_def strip_defs loads_sample_def str_rfind_def
        py_slice_def slice_bound_def)
  from parse_json_returns_fallback
         [of loads_sample "''  reply {not json} end ''" "PDict [''k'' \<mapsto> PInt 1]", OF h] h
  show ?thesis by blast
qed

text \<open>
  The claim as first stated speaks of every text that fails its parsing attempts. The
  two \<^verbatim>\<open>except\<close> clauses name \<^verbatim>\<open>json.JSONDecodeError\<close> and nothing else. On the
  deeply nested text the one attempt made (the text holds no brace) fails with an
  exception of another kind; it is not caught, and it leaves \<^verbatim>\<open>_parse_json\<close> where
  the fallback was promised.
\<close>

theorem parse_json_uncaught_counterexample:
  "loads_nested (strip deep_text) = Inl OtherError \<and>
   str_find (strip deep_text) CHR ''{'' = - 1 \<and>
   parse_json loads_nested deep_text (PDict Map.empty) = Inl OtherError \<and>
   parse_json loads_nested deep_text (PDict Map.empty) \<noteq> Inr (PDict Map.empty)"
proof -
  have l: "loads_nested (strip deep_text) = Inl OtherError"
    by (simp add: strip_deep_text loads_nested_def)
  have "CHR ''{'' \<notin> set deep_text"
    by (simp add: deep_text_def)
  then have f: "str_find (strip deep_text) CHR ''{'' = - 1"
    by (simp add: strip_deep_text str_find_absent)
  have p: "parse_json loads_nested deep_text (PDict Map.empty) = Inl OtherError"
    by (simp add: parse_json_def l)
  from l f p show ?thesis by simp
qed

text \<open>
  Claim C4. When the text, stripped of leading and trailing whitespace, is accepted by
  the decoder, \<^verbatim>\<open>_parse_json\<close> returns the decoded value unchanged, whatever the
  fallback is.
\<close>

theorem parse_json_valid_text:
  "loads (strip content) = Inr v \<Longrightarrow> parse_json loads content fallback = Inr v"
  by (rule parse_json_whole)

theorem parse_json_valid_text_witness:
  "loads_sample (strip '' {} '') = Inr (PDict Map.empty) \<and>
   parse_json loads_sample '' {} '' (PList []) = Inr (PDict Map.empty)"
proof -
  have h: "loads_sample (strip '' {} '') = Inr (PDict Map.empty)"
    by (simp add: strip_defs loads_sample_def)
  from parse_json_valid_text [of loads_sample "'' {} ''" "PDict Map.empty" "PList []", OF h] h
  show ?thesis by simp
qed



section \<open>Properties of the nodes that read a completion\<close>





text \<open>
  Claim C9. There are completions that are valid JSON and not an object, such as
  \<^verbatim>\<open>[]\<close>. For each completion whose stripped text decodes to a value that is not a
  dictionary, \<^verbatim>\<open>_parse_json\<close> returns that value and not the fallback record, and
  both \<^verbatim>\<open>parse_patient_message\<close> and \<^verbatim>\<open>assess_urgency\<close> end in
  \<open>AttributeError\<close> at the first \<^verbatim>\<open>.get\<close>: neither node degrades to its fallback.
\<close>

theorem non_object_json_breaks_nodes:
  assumes "loads (strip content) = Inr v" and "\<not> is_dict v"
  shows "parse_json loads content parse_fallback = Inr v \<and>
         parse_json loads content parse_fallback \<noteq> Inr parse_fallback \<and>
         parse_json loads content assess_fallback = Inr v \<and>
         parse_json loads content assess_fallback \<noteq> Inr assess_fallback \<and>
         parse_patient_message loads content = Inl AttributeError \<and>
         assess_urgency loads content = Inl AttributeError"
proof -
  have p: "parse_json loads content fb = Inr v" for fb
    using assms(1) by (rule parse_json_whole)
  have "v \<noteq> parse_fallback" "v \<noteq> assess_fallback"
    using assms(2) by (auto simp add: is_dict_def parse_fallback_def assess_fallback_def)
  moreover have "parse_patient_message loads content = Inl AttributeError"
    by (simp add: parse_patient_message_def p py_get_not_dict [OF assms(2)])
  moreover have "assess_urgency loads content = Inl AttributeError"
    by (simp add: assess_urgency_def p py_get_not_dict [OF assms(2)])
  ultimately show ?thesis by (simp add: p)
qed

theorem non_object_json_breaks_nodes_witness:
  "loads_sample (strip ''[]'') = Inr (PList []) \<and> \<not> is_dict (PList []) \<and>
   parse_json loads_sample ''[]'' parse_fallback = Inr (PList []) \<and>
   parse_patient_message loads_sample ''[]'' = Inl AttributeError \<and>
   assess_urgency loads_sample ''[]'' = Inl AttributeError"
proof -
  have h1: "loads_sample (strip ''[]'') = Inr (PList [])"
    by (simp add: strip_defs loads_sample_def)
  have h2: "\<not> is_dict (PList [])"
    by (simp add: is_dict_def)
  from non_object_json_breaks_nodes [of loads_sample "''[]''" "PList []", OF h1 h2] h1 h2
  show ?thesis by blast
qed

text \<open>
  Claim C10. When the extractor returns a JSON object, \<^verbatim>\<open>assess_urgency\<close> fills each
  key the object lacks from the default of its own \<^verbatim>\<open>.get\<close>: a missing severity
  score becomes 5 where the fallback record has 6, a missing confidence becomes 0.5
  where the fallback record has 0.3, a missing urgency level becomes \<^verbatim>\<open>URGENT\<close> and
  missing red flags become the empty list, as in the fallback record.
\<close>

theorem assess_urgency_missing_keys:
  assumes "parse_json loads content assess_fallback = Inr (PDict m)"
  shows "\<exists>u. assess_urgency loads content = Inr u \<and>
           (m ''severity_score'' = None \<longrightarrow> u ''severity_score'' = Some (PInt 5)) \<and>
           (m ''confidence'' = None \<longrightarrow> u ''confidence'' = Some (PFloat 0.5)) \<and>
           (m ''urgency_level'' = None \<longrightarrow> u ''urgency_level'' = Some (PStr ''URGENT'')) \<and>
           (m ''red_flags'' = None \<longrightarrow> u ''red_flags'' = Some (PList [])) \<and>
           py_get assess_fallback ''severity_score'' PNone = Inr (PInt 6) \<and>
           py_get assess_fallback ''confidence'' PNone = Inr (PFloat 0.3) \<and>
           py_get assess_fallback ''urgency_level'' PNone = Inr (PStr ''URGENT'') \<and>
           py_get assess_fallback ''red_flags'' PNone = Inr (PList []) \<and>
           PInt 5 \<noteq> PInt 6 \<and> PFloat 0.5 \<noteq> PFloat 0.3"
proof -
  have u: "assess_urgency loads content =
      Inr [''severity_score'' \<mapsto> dict_get m ''severity_score'' (PInt 5),
           ''urgency_level'' \<mapsto> dict_get m ''urgency_level'' (PStr ''URGENT''),
           ''red_flags'' \<mapsto> dict_get m ''red_flags'' (PList []),
           ''confidence'' \<mapsto> dict_get m ''confidence'' (PFloat 0.5)]"
    by (simp add: assess_urgency_def assms py_get_dict)
  have f: "py_get assess_fallback ''severity_score'' PNone = Inr (PInt 6)"
    "py_get assess_fallback ''confidence'' PNone = Inr (PFloat 0.3)"
    "py_get assess_fallback ''urgency_level'' PNone = Inr (PStr ''URGENT'')"
    "py_get assess_fallback ''red_flags'' PNone = Inr (PList [])"
    by (simp_all add: assess_fallback_def py_get_dict dict_get_def)
  show ?thesis
    unfolding u by (simp add: f dict_get_def)
qed

theorem assess_urgency_missing_keys_witness:
  "parse_json loads_sample ''{}'' assess_fallback = Inr (PDict Map.empty) \<and>
   (\<exists>u. assess_urgency loads_sample ''{}'' = Inr u \<and>
        u ''severity_score'' = Some (PInt 5) \<and>
        u ''confidence'' = Some (PFloat 0.5) \<and>
        u ''urgency_level'' = Some (PStr ''URGENT'') \<and>
        u ''red_flags'' = Some (PList []))"
proof -
  have "loads_sample (strip ''{}'') = Inr (PDict Map.empty)"
    by (simp add: strip_defs loads_sample_def)
  then have h: "parse_json loads_sample ''{}'' assess_fallback = Inr (PDict Map.empty)"
    by (rule parse_json_whole)
  from assess_urgency_missing_keys [of loads_sample "''{}''" Map.empty, OF h] h
  show ?thesis by auto
qed

section \<open>Properties of the router\<close>

text \<open>
  Claim C2. \<^verbatim>\<open>route_by_urgency\<close> is a function of the urgency classification held
  by the state alone: \<^verbatim>\<open>EMERGENCY\<close> selects the escalate branch, \<^verbatim>\<open>URGENT\<close> the
  book branch, and everything else the self-care branch, be it an absent field, the
  empty string, or any other value.
\<close>

theorem route_by_urgency_branches:
  "(state ''urgency_level'' = Some (PStr ''EMERGENCY'') \<longrightarrow>
      route_by_urgency state = ''emergency'') \<and>
   (state ''urgency_level'' = Some (PStr ''URGENT'') \<longrightarrow>
      route_by_urgency state = ''urgent'') \<and>
   (state ''urgency_level'' = None \<longrightarrow> route_by_urgency state = ''routine'') \<and>
   (state ''urgency_level'' = Some (PStr '''') \<longrightarrow> route_by_urgency state = ''routine'') \<and>
   (\<forall>v. state ''urgency_level'' = Some v \<and> v \<noteq> PStr ''EMERGENCY'' \<and> v \<noteq> PStr ''URGENT'' \<longrightarrow>
      route_by_urgency state = ''routine'')"
  by (auto simp add: route_by_urgency_def dict_get_def)

theorem route_by_urgency_branches_witness:
  "route_by_urgency [''urgency_level'' \<mapsto> PStr ''EMERGENCY''] = ''emergency'' \<and>
   route_by_urgency [''urgency_level'' \<mapsto> PStr ''URGENT''] = ''urgent'' \<and>
   route_by_urgency Map.empty = ''routine'' \<and>
   route_by_urgency [''urgency_level'' \<mapsto> PStr ''''] = ''routine'' \<and>
   route_by_urgency [''urgency_level'' \<mapsto> PStr ''urgent''] = ''routine''"
  using route_by_urgency_branches [of "[''urgency_level'' \<mapsto> PStr ''EMERGENCY'']"]
    route_by_urgency_branches [of "[''urgency_level'' \<mapsto> PStr ''URGENT'']"]
    route_by_urgency_branches [of "Map.empty"]
    route_by_urgency_branches [of "[''urgency_level'' \<mapsto> PStr '''']"]
    route_by_urgency_branches [of "[''urgency_level'' \<mapsto> PStr ''urgent'']"]
  by simp

section \<open>Properties of the booking handler\<close>

lemma two_digits_3: "two_digits 3 = ''03''"
  by code_simp

lemma two_digits_0: "two_digits 0 = ''00''"
  by code_simp

lemma slot_le_now:
  "dt_le (now\<lparr>hour := 15, minute := 0, second := 0, microsecond := 0\<rparr>) now \<longleftrightarrow> 15 \<le> hour now"
  by (auto simp add: dt_le_def)

lemma slot_str_value:
  "slot_str (now\<lparr>ordinal := d, hour := 15, minute := 0, second := 0, microsecond := 0\<rparr>) now =
     ''03:00 PM'' @ (if d = ordinal now then '' today'' else '' tomorrow'')"
  by (simp add: slot_str_def strftime_I_def strftime_M_def strftime_p_def two_digits_3 two_digits_0)

lemma booking_slot_value:
  assumes "valid_datetime now" and "ordinal now < max_ordinal \<or> hour now < 15"
  shows "booking_slot now =
           Inr (now\<lparr>ordinal := (if target_elapsed now then ordinal now + 1 else ordinal now),
                    hour := 15, minute := 0, second := 0, microsecond := 0\<rparr>)"
  using assms
  by (auto simp add: booking_slot_def target_elapsed_def slot_le_now add_days_def
      valid_datetime_def Let_def)

text \<open>
  Claim C6. The current time is a reading of the clock: a valid date-time, and not one
  of the last nine hours that the type can hold (15:00 or later on 9999-12-31, when no
  following day exists). For every such time \<^verbatim>\<open>urgent_handler\<close> computes the slot at
  the fixed target hour, 15:00:00. If that hour has already elapsed for the current day
  (the code's test \<^verbatim>\<open>slot <= now\<close>, true exactly when the hour of the current time is
  15 or more) the day of the slot is the day after the current one, otherwise it is the
  current day. The update sets the action taken to \<^verbatim>\<open>BOOK\<close> and the detail string to
  the sentence that names the slot, \<^verbatim>\<open>03:00 PM today\<close> or \<^verbatim>\<open>03:00 PM tomorrow\<close>,
  and then the severity score read from the state (\<^verbatim>\<open>N/A\<close> when absent).
\<close>

theorem urgent_handler_books_slot:
  assumes "valid_datetime now" and "ordinal now < max_ordinal \<or> hour now < 15"
  shows "(target_elapsed now \<longleftrightarrow> 15 \<le> hour now) \<and>
         booking_slot now =
           Inr (now\<lparr>ordinal := (if target_elapsed now then ordinal now + 1 else ordinal now),
                    hour := 15, minute := 0, second := 0, microsecond := 0\<rparr>) \<and>
         urgent_handler other now state =
           Inr [''action_taken'' \<mapsto> PStr ''BOOK'',
                ''escalation_reason'' \<mapsto> PStr
                  (''Same-day appointment booked for 03:00 PM '' @
                   (if target_elapsed now then ''tomorrow'' else ''today'') @
                   ''. Severity: '' @
                   py_format other (dict_get state ''severity_score'' (PStr ''N/A'')) @
                   ''/10.'')]"
proof -
  have e: "target_elapsed now \<longleftrightarrow> 15 \<le> hour now"
    by (simp add: target_elapsed_def slot_le_now)
  note b = booking_slot_value [OF assms]
  have "urgent_handler other now state =
           Inr [''action_taken'' \<mapsto> PStr ''BOOK'',
                ''escalation_reason'' \<mapsto> PStr
                  (''Same-day appointment booked for 03:00 PM '' @
                   (if target_elapsed now then ''tomorrow'' else ''today'') @
                   ''. Severity: '' @
                   py_format other (dict_get state ''severity_score'' (PStr ''N/A'')) @
                   ''/10.'')]"
    unfolding urgent_handler_def b
    by (simp add: slot_str_value)
  with b e show ?thesis by simp
qed

theorem urgent_handler_books_slot_witness:
  "valid_datetime \<lparr>ordinal = 740000, hour = 16, minute = 30, second = 0, microsecond = 0\<rparr> \<and>
   target_elapsed \<lparr>ordinal = 740000, hour = 16, minute = 30, second = 0, microsecond = 0\<rparr> \<and>
   booking_slot \<lparr>ordinal = 740000, hour = 16, minute = 30, second = 0, microsecond = 0\<rparr> =
     Inr \<lparr>ordinal = 740001, hour = 15, minute = 0, second = 0, microsecond = 0\<rparr> \<and>
   urgent_handler (\<lambda>v. [])
       \<lparr>ordinal = 740000, hour = 16, minute = 30, second = 0, microsecond = 0\<rparr>
       [''severity_score'' \<mapsto> PInt 5] =
     Inr [''action_taken'' \<mapsto> PStr ''BOOK'',
          ''escalation_reason'' \<mapsto> PStr
             ''Same-day appointment booked for 03:00 PM tomorrow. Severity: 5/10.''] \<and>
   valid_datetime \<lparr>ordinal = 740000, hour = 15, minute = 0, second = 0, microsecond = 0\<rparr> \<and>
   target_elapsed \<lparr>ordinal = 740000, hour = 15, minute = 0, second = 0, microsecond = 0\<rparr> \<and>
   booking_slot \<lparr>ordinal = 740000, hour = 15, minute = 0, second = 0, microsecond = 0\<rparr> =
     Inr \<lparr>ordinal = 740001, hour = 15, minute = 0, second = 0, microsecond = 0\<rparr> \<and>
   valid_datetime \<lparr>ordinal = 3652059, hour = 9, minute = 5, second = 0, microsecond = 0\<rparr> \<and>
   \<not> target_elapsed \<lparr>ordinal = 3652059, hour = 9, minute = 5, second = 0, microsecond = 0\<rparr> \<and>
   booking_slot \<lparr>ordinal = 3652059, hour = 9, minute = 5, second = 0, microsecond = 0\<rparr> =
     Inr \<lparr>ordinal = 3652059, hour = 15, minute = 0, second = 0, microsecond = 0\<rparr> \<and>
   urgent_handler (\<lambda>v. [])
       \<lparr>ordinal = 3652059, hour = 9, minute = 5, second = 0, microsecond = 0\<rparr> Map.empty =
     Inr [''action_taken'' \<mapsto> PStr ''BOOK'',
          ''escalation_reason'' \<mapsto> PStr
             ''Same-day appointment booked for 03:00 PM today. Severity: N/A/10.'']"
proof -
  have v1: "valid_datetime \<lparr>ordinal = 740000, hour = 16, minute = 30, second = 0, microsecond = 0\<rparr>"
    by (simp add: valid_datetime_def max_ordinal_def)
  have c1: "ordinal \<lparr>ordinal = 740000, hour = 16, minute = 30, second = 0, microsecond = 0\<rparr>
              < max_ordinal \<or>
            hour \<lparr>ordinal = 740000, hour = 16, minute = 30, second = 0, microsecond = 0\<rparr> < 15"
    by (simp add: max_ordinal_def)
  have v2: "valid_datetime \<lparr>ordinal = 3652059, hour = 9, minute = 5, second = 0, microsecond = 0\<rparr>"
    by (simp add: valid_datetime_def max_ordinal_def)
  have c2: "ordinal \<lparr>ordinal = 3652059, hour = 9, minute = 5, second = 0, microsecond = 0\<rparr>
              < max_ordinal \<or>
            hour \<lparr>ordinal = 3652059, hour = 9, minute = 5, second = 0, microsecond = 0\<rparr> < 15"
    by simp
  have v3: "valid_datetime \<lparr>ordinal = 740000, hour = 15, minute = 0, second = 0, microsecond = 0\<rparr>"
    by (simp add: valid_datetime_def max_ordinal_def)
  have c3: "ordinal \<lparr>ordinal = 740000, hour = 15, minute = 0, second = 0, microsecond = 0\<rparr>
              < max_ordinal \<or>
            hour \<lparr>ordinal = 740000, hour = 15, minute = 0, second = 0, microsecond = 0\<rparr> < 15"
    by (simp add: max_ordinal_def)
  have five: "str_int 5 = ''5''"
    by code_simp
  from urgent_handler_books_slot [OF v1 c1, of "\<lambda>v. []" "[''severity_score'' \<mapsto> PInt 5]"]
    urgent_handler_books_slot [OF v2 c2, of "\<lambda>v. []" Map.empty]
    urgent_handler_books_slot [OF v3 c3, of "\<lambda>v. []" Map.empty] v1 v2 v3
  show ?thesis
    by (simp add: py_format_def dict_get_def five)
qed

text \<open>
  The times left out above: on 9999-12-31 from 15:00 on, the slot of that day is not
  after the current time, the day after it is no date, and the addition of one day ends
  in \<open>OverflowError\<close>. No clock reading reaches these nine hours.
\<close>

lemma urgent_handler_last_day:
  "valid_datetime \<lparr>ordinal = 3652059, hour = 16, minute = 0, second = 0, microsecond = 0\<rparr> \<and>
   booking_slot \<lparr>ordinal = 3652059, hour = 16, minute = 0, second = 0, microsecond = 0\<rparr> =
     Inl OverflowError \<and>
   urgent_handler (\<lambda>v. [])
       \<lparr>ordinal = 3652059, hour = 16, minute = 0, second = 0, microsecond = 0\<rparr> Map.empty =
     Inl OverflowError"
  by (simp add: valid_datetime_def max_ordinal_def urgent_handler_def booking_slot_def
      dt_le_def add_days_def)

section \<open>Properties of the merge\<close>

text \<open>
  Claim C8. Merging the same partial update into the state twice gives the state that
  merging it once gives.
\<close>

theorem merge_update_idempotent:
  "merge_update (merge_update state upd) upd = merge_update state upd"
  by (rule ext) (simp add: merge_update_def split: option.splits)

end
